theory Spec2Isabelle
  imports Complex_Main
begin

section \<open>Python values, errors and indexing\<close>

text \<open>
  The exceptions the program can meet.  \<open>OtherError\<close> stands for any exception that is
  neither of the named ones (a parser error of the table library, a permission error, ...).
\<close>

datatype py_error =
    ValueError
  | IndexError
  | AttributeError
  | FileNotFoundError
  | EmptyDataError
  | ParserError
  | OtherError

text \<open>
  \<^verbatim>\<open>xs[i]\<close> on a Python list: a negative index counts from the end, an index outside
  the list raises \<^verbatim>\<open>IndexError\<close>.
\<close>

definition py_index :: "'a list \<Rightarrow> int \<Rightarrow> py_error + 'a" where
  "py_index xs i =
     (if 0 \<le> i \<and> i < int (length xs) then Inr (xs ! nat i)
      else if i < 0 \<and> - int (length xs) \<le> i then Inr (xs ! nat (int (length xs) + i))
      else Inl IndexError)"

text \<open>
  \<^verbatim>\<open>int(i)\<close> for a one-character string \<^verbatim>\<open>i\<close>: the digit's value, and
  \<^verbatim>\<open>ValueError\<close> for every other character (a sign, a blank or an underscore alone is
  no literal).  Characters are the code points below 256, among which the decimal digits
  are exactly \<^verbatim>\<open>0\<close> to \<^verbatim>\<open>9\<close>.
\<close>

definition is_digit :: "char \<Rightarrow> bool" where
  "is_digit c = (48 \<le> (of_char c :: nat) \<and> (of_char c :: nat) \<le> 57)"

definition digit_value :: "char \<Rightarrow> int" where
  "digit_value c = int (of_char c) - 48"

definition int_of_char :: "char \<Rightarrow> py_error + int" where
  "int_of_char c = (if is_digit c then Inr (digit_value c) else Inl ValueError)"

text \<open>
  \<^verbatim>\<open>[ int( i ) for i in column_order ]\<close>: the comprehension converts the characters from
  left to right and the first failing conversion raises.
\<close>

fun column_indices_of :: "string \<Rightarrow> py_error + int list" where
  "column_indices_of [] = Inr []"
| "column_indices_of (c # cs) =
     (case int_of_char c of
        Inl e \<Rightarrow> Inl e
      | Inr d \<Rightarrow> (case column_indices_of cs of Inl e \<Rightarrow> Inl e | Inr ds \<Rightarrow> Inr (d # ds)))"

section \<open>Tables\<close>

text \<open>
  A \<^verbatim>\<open>pd.DataFrame\<close>: the header names in file order and the rows in file order.  A cell
  is the text of its field, \<open>None\<close> for a missing value (NaN).  Frames are rectangular:
  every row has one cell per column.
\<close>

type_synonym cell = "string option"

record dataframe =
  columns :: "string list"
  rows :: "cell list list"

definition rectangular :: "dataframe \<Rightarrow> bool" where
  "rectangular df = list_all (\<lambda>r. length r = length (columns df)) (rows df)"

text \<open>
  \<^verbatim>\<open>df.iloc[ :, i ]\<close>: the column at position \<^verbatim>\<open>i\<close>, with Python's negative positions,
  \<^verbatim>\<open>IndexError\<close> outside the frame.
\<close>

definition iloc_col :: "dataframe \<Rightarrow> int \<Rightarrow> py_error + cell list" where
  "iloc_col df i =
     (case py_index [0 ..< length (columns df)] i of
        Inl e \<Rightarrow> Inl e
      | Inr j \<Rightarrow> Inr (map (\<lambda>r. r ! j) (rows df)))"

text \<open>\<^verbatim>\<open>df.dropna()\<close>: the rows with a missing value in any column are removed.\<close>

definition dropna :: "dataframe \<Rightarrow> dataframe" where
  "dropna df = df\<lparr>rows := filter (\<lambda>r. None \<notin> set r) (rows df)\<rparr>"

section \<open>The plotting backend\<close>

text \<open>
  The state of \<^verbatim>\<open>matplotlib.pyplot\<close> that the program touches: the font size in
  \<^verbatim>\<open>rcParams\<close>, the open figures (the current one first) and the image files written so
  far, each with its name, its format and the figure saved.  The state also holds the
  lines printed to standard output.
\<close>

record series =
  ser_x :: "cell list"
  ser_y :: "cell list"
  ser_color :: string
  ser_label :: string

record figure =
  figsize :: "real \<times> real"
  plotted :: "series list"
  fig_xlabel :: "string option"
  fig_ylabel :: "string option"
  fig_legend :: bool
  fig_tight :: bool

datatype message =
    DirectoryError py_error
  | FileNotFound string
  | LoadError py_error

record state =
  rc_font_size :: int
  open_figs :: "figure list"
  saved :: "(string \<times> string \<times> figure) list"
  stdout :: "message list"

definition new_figure :: "real \<times> real \<Rightarrow> figure" where
  "new_figure sz =
     \<lparr>figsize = sz, plotted = [], fig_xlabel = None, fig_ylabel = None,
      fig_legend = False, fig_tight = False\<rparr>"

text \<open>The figure size of \<^verbatim>\<open>rcParams\<close>, used when a call finds no open figure.\<close>

definition default_figsize :: "real \<times> real" where
  "default_figsize = (64 / 10, 48 / 10)"

text \<open>
  What the backend refuses.  Four of the calls the program makes can raise, and which
  arguments they refuse is the library's matter, not the program's: \<^verbatim>\<open>plt.figure\<close> on a
  figure size it cannot use, \<^verbatim>\<open>plt.plot\<close> on a colour it does not know,
  \<^verbatim>\<open>plt.tight_layout\<close> on a figure whose size it cannot lay out, and \<^verbatim>\<open>plt.savefig\<close> on
  a format it does not support or a file it cannot write.  Each field gives the error the
  call raises on its arguments, \<open>None\<close> when the call goes through.
\<close>

record backend =
  figure_error :: "real \<times> real \<Rightarrow> py_error option"
  plot_error :: "string \<Rightarrow> py_error option"
  layout_error :: "real \<times> real \<Rightarrow> py_error option"
  savefig_error :: "string \<Rightarrow> string \<Rightarrow> py_error option"

text \<open>
  A statement that raises ends the function with the state as it is; otherwise the next
  statement runs on the new state.
\<close>

definition and_then ::
  "py_error option \<times> state \<Rightarrow> (state \<Rightarrow> py_error option \<times> state) \<Rightarrow> py_error option \<times> state" where
  "and_then r f = (case r of (Some e, st) \<Rightarrow> (Some e, st) | (None, st) \<Rightarrow> f st)"

definition rc_update_font_size :: "int \<Rightarrow> state \<Rightarrow> state" where
  "rc_update_font_size n st = st\<lparr>rc_font_size := n\<rparr>"

definition open_figure :: "real \<Rightarrow> real \<Rightarrow> state \<Rightarrow> state" where
  "open_figure w h st = st\<lparr>open_figs := new_figure (w, h) # open_figs st\<rparr>"

definition plt_figure :: "backend \<Rightarrow> real \<Rightarrow> real \<Rightarrow> state \<Rightarrow> py_error option \<times> state" where
  "plt_figure be w h st =
     (case figure_error be (w, h) of
        Some e \<Rightarrow> (Some e, st)
      | None \<Rightarrow> (None, open_figure w h st))"

text \<open>A drawing call acts on the current figure and opens one when there is none.\<close>

definition on_current :: "(figure \<Rightarrow> figure) \<Rightarrow> state \<Rightarrow> state" where
  "on_current f st =
     (case open_figs st of
        [] \<Rightarrow> st\<lparr>open_figs := [f (new_figure default_figsize)]\<rparr>
      | fg # fgs \<Rightarrow> st\<lparr>open_figs := f fg # fgs\<rparr>)"

definition current_figure :: "state \<Rightarrow> figure" where
  "current_figure st =
     (case open_figs st of [] \<Rightarrow> new_figure default_figsize | fg # fgs \<Rightarrow> fg)"

definition add_line :: "cell list \<Rightarrow> cell list \<Rightarrow> string \<Rightarrow> string \<Rightarrow> state \<Rightarrow> state" where
  "add_line x y c l =
     on_current (\<lambda>fg. fg\<lparr>plotted := plotted fg @
       [\<lparr>ser_x = x, ser_y = y, ser_color = c, ser_label = l\<rparr>]\<rparr>)"

definition plt_plot ::
  "backend \<Rightarrow> cell list \<Rightarrow> cell list \<Rightarrow> string \<Rightarrow> string \<Rightarrow> state \<Rightarrow> py_error option \<times> state" where
  "plt_plot be x y c l st =
     (case plot_error be c of
        Some e \<Rightarrow> (Some e, st)
      | None \<Rightarrow> (None, add_line x y c l st))"

definition plt_xlabel :: "string option \<Rightarrow> state \<Rightarrow> state" where
  "plt_xlabel l = on_current (\<lambda>fg. fg\<lparr>fig_xlabel := l\<rparr>)"

definition plt_ylabel :: "string option \<Rightarrow> state \<Rightarrow> state" where
  "plt_ylabel l = on_current (\<lambda>fg. fg\<lparr>fig_ylabel := l\<rparr>)"

definition plt_legend :: "state \<Rightarrow> state" where
  "plt_legend = on_current (\<lambda>fg. fg\<lparr>fig_legend := True\<rparr>)"

definition plt_tight_layout :: "backend \<Rightarrow> state \<Rightarrow> py_error option \<times> state" where
  "plt_tight_layout be st =
     (case layout_error be (figsize (current_figure st)) of
        Some e \<Rightarrow> (Some e, st)
      | None \<Rightarrow> (None, on_current (\<lambda>fg. fg\<lparr>fig_tight := True\<rparr>) st))"

definition store_image :: "string \<Rightarrow> string \<Rightarrow> state \<Rightarrow> state" where
  "store_image fname fmt st =
     (let st' = on_current (\<lambda>fg. fg) st
      in st'\<lparr>saved := saved st' @ [(fname, fmt, current_figure st')]\<rparr>)"

definition plt_savefig :: "backend \<Rightarrow> string \<Rightarrow> string \<Rightarrow> state \<Rightarrow> py_error option \<times> state" where
  "plt_savefig be fname fmt st =
     (case savefig_error be fname fmt of
        Some e \<Rightarrow> (Some e, st)
      | None \<Rightarrow> (None, store_image fname fmt st))"

definition plt_close :: "state \<Rightarrow> state" where
  "plt_close st = st\<lparr>open_figs := tl (open_figs st)\<rparr>"

section \<open>The chart renderer\<close>

text \<open>
  The optional parameters of \<^verbatim>\<open>plot_df\<close> and \<^verbatim>\<open>main\<close>, which \<^verbatim>\<open>main\<close> hands on
  unchanged.
\<close>

record plotspec =
  image_data_type :: string
  width :: real
  height :: real
  x_label :: "string option"
  y_label :: "string option"
  font_size :: int
  colors :: "string list"
  column_order :: string
  legend :: bool

text \<open>
  The body of the loop of \<^verbatim>\<open>plot_df\<close> for one index.  The frame is \<open>None\<close> when the
  loader returned \<^verbatim>\<open>None\<close>; \<^verbatim>\<open>df.columns\<close> then raises \<^verbatim>\<open>AttributeError\<close>.  The
  arguments of \<^verbatim>\<open>plt.plot\<close> are evaluated from left to right.
\<close>

definition plot_column ::
  "backend \<Rightarrow> dataframe option \<Rightarrow> string list \<Rightarrow> int \<Rightarrow> state \<Rightarrow> py_error option \<times> state" where
  "plot_column be df cols col_idx st =
     (case df of
        None \<Rightarrow> (Some AttributeError, st)
      | Some t \<Rightarrow>
          if col_idx \<le> int (length (columns t)) - 1 then
            (case iloc_col t 0 of
               Inl e \<Rightarrow> (Some e, st)
             | Inr x \<Rightarrow>
            (case iloc_col t col_idx of
               Inl e \<Rightarrow> (Some e, st)
             | Inr y \<Rightarrow>
            (case py_index cols (col_idx - 1) of
               Inl e \<Rightarrow> (Some e, st)
             | Inr c \<Rightarrow>
            (case py_index (columns t) (col_idx - 1) of
               Inl e \<Rightarrow> (Some e, st)
             | Inr l \<Rightarrow> plt_plot be x y c l st))))
          else (None, st))"

fun plot_columns ::
  "backend \<Rightarrow> dataframe option \<Rightarrow> string list \<Rightarrow> int list \<Rightarrow> state
     \<Rightarrow> py_error option \<times> state" where
  "plot_columns be df cols [] st = (None, st)"
| "plot_columns be df cols (d # ds) st =
     and_then (plot_column be df cols d st) (plot_columns be df cols ds)"

text \<open>
  \<^verbatim>\<open>plot_df\<close>, statement by statement: the conversion of the order, the font size, the
  figure, the loop, the labels and the legend, the layout, the image, the close.
\<close>

definition plot_df ::
  "backend \<Rightarrow> dataframe option \<Rightarrow> string \<Rightarrow> plotspec \<Rightarrow> state \<Rightarrow> py_error option \<times> state" where
  "plot_df be df image_file_name ps st =
     (case column_indices_of (column_order ps) of
        Inl e \<Rightarrow> (Some e, st)
      | Inr idxs \<Rightarrow>
          and_then (plt_figure be (width ps) (height ps) (rc_update_font_size (font_size ps) st))
            (\<lambda>s1. and_then (plot_columns be df (colors ps) idxs s1)
            (\<lambda>s2. and_then
                     (plt_tight_layout be
                        ((if legend ps then plt_legend else id)
                           (plt_ylabel (y_label ps) (plt_xlabel (x_label ps) s2))))
            (\<lambda>s3. and_then
                     (plt_savefig be (image_file_name @ ''.'' @ image_data_type ps)
                        (image_data_type ps) s3)
            (\<lambda>s4. (None, plt_close s4))))))"

text \<open>The defaults of \<^verbatim>\<open>plot_df\<close> and of \<^verbatim>\<open>main\<close>.\<close>

definition plot_df_defaults :: plotspec where
  "plot_df_defaults =
     \<lparr>image_data_type = ''svg'', width = 10, height = 6, x_label = None, y_label = None,
      font_size = 14, colors = [''red'', ''green'', ''blue''], column_order = ''312'',
      legend = False\<rparr>"

definition main_defaults :: plotspec where
  "main_defaults =
     \<lparr>image_data_type = ''svg'', width = 10, height = 6, x_label = None, y_label = None,
      font_size = 20, colors = [''red'', ''green'', ''blue''], column_order = ''312'',
      legend = False\<rparr>"

section \<open>Paths and the directory walk\<close>

text \<open>
  POSIX paths.  \<^verbatim>\<open>os.path.join( a, b )\<close>: an absolute \<^verbatim>\<open>b\<close> replaces \<^verbatim>\<open>a\<close>, otherwise
  the two are joined by one separator.  \<^verbatim>\<open>os.path.basename( p )\<close>: what follows the last
  separator.  \<^verbatim>\<open>s.endswith( suf )\<close>.
\<close>

definition path_join :: "string \<Rightarrow> string \<Rightarrow> string" where
  "path_join a b =
     (if b \<noteq> [] \<and> hd b = CHR ''/'' then b
      else if a = [] \<or> last a = CHR ''/'' then a @ b
      else a @ ''/'' @ b)"

definition basename :: "string \<Rightarrow> string" where
  "basename p = rev (takeWhile (\<lambda>c. c \<noteq> CHR ''/'') (rev p))"

definition endswith :: "string \<Rightarrow> string \<Rightarrow> bool" where
  "endswith s suf = (length suf \<le> length s \<and> drop (length s - length suf) s = suf)"

text \<open>
  What the walk sees below a path: a file (anything that is no directory), a directory
  with its entries in the order the system lists them, or a directory whose listing
  fails with an OS error (missing, not permitted).  A symbolic link to a directory, which
  the walk names among the subdirectories and does not follow, is seen as the last.
\<close>

datatype fsnode =
    File
  | Dir "(string \<times> fsnode) list"
  | NoAccess

fun is_dir :: "fsnode \<Rightarrow> bool" where
  "is_dir File = False"
| "is_dir (Dir es) = True"
| "is_dir NoAccess = True"

text \<open>
  \<^verbatim>\<open>os.walk( top )\<close>, top-down: the triple of a directory (its path, the names of its
  subdirectories, the names of its other entries) comes first, then the walks of its
  subdirectories in listing order.  A listing that fails with an OS error is passed over
  in silence (\<^verbatim>\<open>onerror\<close> is not given), so such a directory yields nothing.
\<close>

fun os_walk :: "string \<Rightarrow> fsnode \<Rightarrow> (string \<times> string list \<times> string list) list" where
  "os_walk tp File = []"
| "os_walk tp NoAccess = []"
| "os_walk tp (Dir es) =
     (tp, map fst (filter (\<lambda>ne. is_dir (snd ne)) es),
           map fst (filter (\<lambda>ne. \<not> is_dir (snd ne)) es))
     # concat (map (\<lambda>ne. os_walk (path_join tp (fst ne)) (snd ne))
                   (filter (\<lambda>ne. is_dir (snd ne)) es))"

text \<open>
  The world outside the program: what a directory walk finds at a path (\<open>Inl e\<close> when
  \<^verbatim>\<open>os.walk\<close> itself raises \<open>e\<close>, which is then no OS error), what reading a file gives
  (its text, one character per byte in ISO-8859-1, or the error of opening it), the
  field texts the table library reads as a missing value, and what the plotting backend
  refuses.
\<close>

record env =
  tree_at :: "string \<Rightarrow> py_error + fsnode"
  read_file :: "string \<Rightarrow> py_error + string"
  is_na :: "string \<Rightarrow> bool"
  pyplot :: backend

definition txt_of_walk :: "(string \<times> string list \<times> string list) list \<Rightarrow> string list" where
  "txt_of_walk w =
     concat (map (\<lambda>(root, dirs, files).
                    map (path_join root) (filter (\<lambda>f. endswith f ''.txt'') files)) w)"

definition get_txt_files :: "env \<Rightarrow> string \<Rightarrow> state \<Rightarrow> string list \<times> state" where
  "get_txt_files env dir st =
     (case tree_at env dir of
        Inl e \<Rightarrow> ([], st\<lparr>stdout := stdout st @ [DirectoryError e]\<rparr>)
      | Inr node \<Rightarrow> (txt_of_walk (os_walk dir node), st))"

section \<open>The table loader\<close>

text \<open>\<^verbatim>\<open>s.split( d )\<close>: the pieces of \<open>s\<close> between the occurrences of \<open>d\<close>.\<close>

fun split_on :: "char \<Rightarrow> string \<Rightarrow> string list" where
  "split_on d [] = [[]]"
| "split_on d (c # cs) =
     (if c = d then [] # split_on d cs
      else (case split_on d cs of [] \<Rightarrow> [[c]] | w # ws \<Rightarrow> (c # w) # ws))"

definition newline :: char where
  "newline = CHR 0x0A"

definition tab :: char where
  "tab = CHR 0x09"

text \<open>
  Modelled from the spec: \<^verbatim>\<open>pandas.read_csv\<close> is library code outside the repository.
  The call \<^verbatim>\<open>pd.read_csv( file_path, sep= '\t', skiprows= 1 )\<close> is modelled on the text of
  the file as the spec words it: the first line is discarded, blank lines are passed
  over, the next line is the header row, and every further line is a data row of
  tab-separated fields.  A field the library reads as missing becomes \<open>None\<close>; a row with
  fewer fields than the header is filled up with missing values; a row with more fields
  is a parse error; a file with no header line has no columns to parse.  Quoting,
  carriage returns and the renaming of repeated or empty header names are not modelled:
  \<open>valid_tsv\<close> below excludes the files where they matter.
\<close>

definition read_csv_text :: "(string \<Rightarrow> bool) \<Rightarrow> string \<Rightarrow> py_error + dataframe" where
  "read_csv_text na text =
     (case filter (\<lambda>l. l \<noteq> []) (drop 1 (split_on newline text)) of
        [] \<Rightarrow> Inl EmptyDataError
      | h # ls \<Rightarrow>
          (let names = split_on tab h; n = length names; recs = map (split_on tab) ls
           in if list_ex (\<lambda>r. n < length r) recs then Inl ParserError
              else Inr \<lparr>columns = names,
                        rows = map (\<lambda>r. map (\<lambda>f. if na f then None else Some f) r
                                          @ replicate (n - length r) None) recs\<rparr>))"

definition pd_read_csv :: "env \<Rightarrow> string \<Rightarrow> py_error + dataframe" where
  "pd_read_csv env file_path =
     (case read_file env file_path of
        Inl e \<Rightarrow> Inl e
      | Inr text \<Rightarrow> read_csv_text (is_na env) text)"

text \<open>
  \<^verbatim>\<open>load_txt\<close>: both handlers print a line and return \<^verbatim>\<open>None\<close>, so the function never
  raises.
\<close>

definition load_txt :: "env \<Rightarrow> string \<Rightarrow> state \<Rightarrow> dataframe option \<times> state" where
  "load_txt env file_path st =
     (case pd_read_csv env file_path of
        Inr df \<Rightarrow> (Some (dropna df), st)
      | Inl e \<Rightarrow>
          if e = FileNotFoundError
          then (None, st\<lparr>stdout := stdout st @ [FileNotFound file_path]\<rparr>)
          else (None, st\<lparr>stdout := stdout st @ [LoadError e]\<rparr>))"


section \<open>The batch and the command line\<close>

fun main_loop :: "env \<Rightarrow> plotspec \<Rightarrow> string list \<Rightarrow> state \<Rightarrow> py_error option \<times> state" where
  "main_loop env ps [] st = (None, st)"
| "main_loop env ps (tf # tfs) st =
     (case load_txt env tf st of
        (df, st1) \<Rightarrow>
          and_then (plot_df (pyplot env) df (basename tf) ps st1) (main_loop env ps tfs))"

definition main :: "env \<Rightarrow> string \<Rightarrow> plotspec \<Rightarrow> state \<Rightarrow> py_error option \<times> state" where
  "main env dir ps st =
     (case get_txt_files env dir st of
        (txt_files, st1) \<Rightarrow> main_loop env ps txt_files st1)"

text \<open>
  The namespace \<^verbatim>\<open>parser.parse_args()\<close> returns, and the call of \<^verbatim>\<open>main\<close> under
  \<^verbatim>\<open>if __name__ == "__main__"\<close>: the keyword arguments it passes are \<^verbatim>\<open>dir\<close>,
  \<^verbatim>\<open>width\<close>, \<^verbatim>\<open>height\<close>, \<^verbatim>\<open>font_size\<close>, \<^verbatim>\<open>legend\<close> and \<^verbatim>\<open>column_order\<close>; every other
  parameter of \<^verbatim>\<open>main\<close> keeps its default.
\<close>

record args =
  arg_input_dir :: string
  arg_image_data_type :: "string option"
  arg_order :: string
  arg_width :: int
  arg_height :: int
  arg_font_size :: int
  arg_legend :: bool
  arg_x_label :: "string option"
  arg_y_label :: "string option"

definition script :: "env \<Rightarrow> args \<Rightarrow> state \<Rightarrow> py_error option \<times> state" where
  "script env a st =
     main env (arg_input_dir a)
       (main_defaults\<lparr>width := of_int (arg_width a), height := of_int (arg_height a),
                      font_size := arg_font_size a, legend := arg_legend a,
                      column_order := arg_order a\<rparr>)
       st"

definition initial_state :: state where
  "initial_state = \<lparr>rc_font_size = 10, open_figs = [], saved = [], stdout = []\<rparr>"

section \<open>The discoverer's result, as the spec words it\<close>

text \<open>
  The files under a directory, recursively and in directory-walk order, each with its
  path and its name: the entries of the directory that are no directories come first, in
  listing order, then the files under each subdirectory in turn.  \<open>file_under\<close> says the
  same without an order: a path names a file under the root when the file is an entry of
  the root or lies under one of its subdirectories.  \<open>txt_under\<close> keeps the paths of the
  files whose name ends with \<^verbatim>\<open>.txt\<close>.
\<close>

fun files_under :: "string \<Rightarrow> fsnode \<Rightarrow> (string \<times> string) list" where
  "files_under tp File = []"
| "files_under tp NoAccess = []"
| "files_under tp (Dir es) =
     map (\<lambda>ne. (path_join tp (fst ne), fst ne)) (filter (\<lambda>ne. \<not> is_dir (snd ne)) es)
     @ concat (map (\<lambda>ne. files_under (path_join tp (fst ne)) (snd ne))
                   (filter (\<lambda>ne. is_dir (snd ne)) es))"

inductive file_under :: "string \<Rightarrow> fsnode \<Rightarrow> string \<Rightarrow> string \<Rightarrow> bool" where
  here: "(n, e) \<in> set es \<Longrightarrow> \<not> is_dir e \<Longrightarrow> file_under tp (Dir es) (path_join tp n) n"
| below: "(n, e) \<in> set es \<Longrightarrow> is_dir e \<Longrightarrow> file_under (path_join tp n) e p f \<Longrightarrow>
          file_under tp (Dir es) p f"

definition txt_under :: "string \<Rightarrow> fsnode \<Rightarrow> string list" where
  "txt_under tp node = map fst (filter (\<lambda>pf. endswith (snd pf) ''.txt'') (files_under tp node))"

section \<open>What a run writes, and when a table renders\<close>

text \<open>
  The names and formats of the images written so far.  An index draws when
  \<^verbatim>\<open>colors[ d - 1 ]\<close> exists and the backend accepts that colour.  A table renders under
  a plot configuration when the backend accepts the figure size, for the figure and for
  its layout, and every character of the order is a digit whose index is passed over by
  the column guard or draws.  A path loads and renders when the table library reads it,
  the table, with its incomplete rows dropped, renders, and the backend can save the
  image under its name in the format asked for.
\<close>

definition written :: "state \<Rightarrow> (string \<times> string) list" where
  "written st = map (\<lambda>s. (fst s, fst (snd s))) (saved st)"

definition draws :: "backend \<Rightarrow> string list \<Rightarrow> int \<Rightarrow> bool" where
  "draws be cols d =
     (case py_index cols (d - 1) of Inl e \<Rightarrow> False | Inr c \<Rightarrow> plot_error be c = None)"

definition renders :: "backend \<Rightarrow> dataframe \<Rightarrow> plotspec \<Rightarrow> bool" where
  "renders be t ps =
     (figure_error be (width ps, height ps) = None \<and>
      layout_error be (width ps, height ps) = None \<and>
      list_all (\<lambda>c. is_digit c \<and>
                  (int (length (columns t)) \<le> digit_value c
                   \<or> draws be (colors ps) (digit_value c)))
        (column_order ps))"

definition loads_and_renders :: "env \<Rightarrow> plotspec \<Rightarrow> string \<Rightarrow> bool" where
  "loads_and_renders env ps tf =
     (case pd_read_csv env tf of
        Inl e \<Rightarrow> False
      | Inr t \<Rightarrow>
          renders (pyplot env) (dropna t) ps \<and>
          savefig_error (pyplot env) (basename tf @ ''.'' @ image_data_type ps)
            (image_data_type ps) = None)"

section \<open>The rows of an input file\<close>



section \<open>Example inputs\<close>

text \<open>
  A table of four columns and two rows, the text of a file that holds it (with a third
  data row that lacks a value), and a directory \<^verbatim>\<open>data\<close> with that file as
  \<^verbatim>\<open>sample.txt\<close>, under the backend below.
\<close>

definition ex_table :: dataframe where
  "ex_table =
     \<lparr>columns = [''Distance'', ''A'', ''B'', ''C''],
      rows = [[Some ''0.0'', Some ''1'', Some ''2'', Some ''3''],
              [Some ''0.5'', Some ''4'', Some ''5'', Some ''6'']]\<rparr>"

definition ex_text :: string where
  "ex_text =
     ''profile 1'' @ [newline] @
     ''Distance'' @ [tab] @ ''A'' @ [tab] @ ''B'' @ [tab] @ ''C'' @ [newline] @
     ''0.0'' @ [tab] @ ''1'' @ [tab] @ ''2'' @ [tab] @ ''3'' @ [newline] @
     ''0.2'' @ [tab] @ [tab] @ ''7'' @ [tab] @ ''8'' @ [newline] @
     ''0.5'' @ [tab] @ ''4'' @ [tab] @ ''5'' @ [tab] @ ''6'' @ [newline]"

text \<open>
  A backend that accepts a figure of positive width and height, four colour names and
  three image formats, and refuses everything else with \<^verbatim>\<open>ValueError\<close>.
\<close>

definition ex_backend :: backend where
  "ex_backend =
     \<lparr>figure_error = (\<lambda>sz. if 0 < fst sz \<and> 0 < snd sz then None else Some ValueError),
      plot_error = (\<lambda>c. if c \<in> set [''red'', ''green'', ''blue'', ''black'']
                          then None else Some ValueError),
      layout_error = (\<lambda>sz. if 0 < fst sz \<and> 0 < snd sz then None else Some ValueError),
      savefig_error = (\<lambda>n f. if f \<in> set [''svg'', ''png'', ''pdf'']
                                then None else Some ValueError)\<rparr>"

definition ex_env :: env where
  "ex_env =
     \<lparr>tree_at = (\<lambda>p. if p = ''data'' then Inr (Dir [(''sample.txt'', File)]) else Inr NoAccess),
      read_file = (\<lambda>p. if p = ''data/sample.txt'' then Inr ex_text else Inl FileNotFoundError),
      is_na = (\<lambda>f. f = []),
      pyplot = ex_backend\<rparr>"

text \<open>
  A directory \<^verbatim>\<open>data\<close> with an empty file \<^verbatim>\<open>bad.txt\<close>, which the table library
  cannot parse, listed before a valid file \<^verbatim>\<open>good.txt\<close>.
\<close>

definition ex_env_bad :: env where
  "ex_env_bad =
     \<lparr>tree_at = (\<lambda>p. if p = ''data'' then Inr (Dir [(''bad.txt'', File), (''good.txt'', File)])
                       else Inr NoAccess),
      read_file = (\<lambda>p. if p = ''data/bad.txt'' then Inr []
                         else if p = ''data/good.txt'' then Inr ex_text
                         else Inl FileNotFoundError),
      is_na = (\<lambda>f. f = []),
      pyplot = ex_backend\<rparr>"

text \<open>
  A directory \<^verbatim>\<open>data\<close> with two text files, a subdirectory that holds a text file and
  another file, and a subdirectory that cannot be listed; a directory \<^verbatim>\<open>plain\<close> with no
  text file; every other path is missing.
\<close>

definition ex_env_tree :: env where
  "ex_env_tree =
     \<lparr>tree_at = (\<lambda>p. if p = ''data'' then
                         Inr (Dir [(''a.txt'', File),
                                   (''sub'', Dir [(''b.txt'', File), (''c.dat'', File)]),
                                   (''locked'', NoAccess),
                                   (''z.txt'', File)])
                       else if p = ''plain'' then Inr (Dir [(''notes.dat'', File)])
                       else Inr NoAccess),
      read_file = (\<lambda>p. Inl FileNotFoundError),
      is_na = (\<lambda>f. f = []),
      pyplot = ex_backend\<rparr>"

text \<open>
  The command line \<^verbatim>\<open>colocgraph.py data --image_data_type png --x_label X --y_label Y\<close>,
  parsed.
\<close>

definition ex_args :: args where
  "ex_args =
     \<lparr>arg_input_dir = ''data'', arg_image_data_type = Some ''png'', arg_order = ''312'',
      arg_width = 4, arg_height = 2, arg_font_size = 9, arg_legend = False,
      arg_x_label = Some ''X'', arg_y_label = Some ''Y''\<rparr>"

section \<open>Facts about the renderer\<close>

lemma column_indices_of_non_digit:
  "\<exists>c \<in> set s. \<not> is_digit c \<Longrightarrow> column_indices_of s = Inl ValueError"
  by (induction s) (auto simp: int_of_char_def split: sum.splits)

lemma column_indices_of_digits:
  "list_all is_digit s \<Longrightarrow> column_indices_of s = Inr (map digit_value s)"
  by (induction s) (auto simp: int_of_char_def)

lemma column_indices_of_cases:
  "column_indices_of s = Inl ValueError \<or> column_indices_of s = Inr (map digit_value s)"
  by (induction s) (auto simp: int_of_char_def)

lemma digit_value_nonneg: "is_digit c \<Longrightarrow> 0 \<le> digit_value c"
  by (simp add: is_digit_def digit_value_def)

lemma py_index_error: "py_index xs i = Inl e \<Longrightarrow> e = IndexError"
  by (auto simp: py_index_def split: if_splits)

lemma iloc_col_error: "iloc_col t i = Inl e \<Longrightarrow> e = IndexError"
  by (auto simp: iloc_col_def split: sum.splits dest: py_index_error)

lemma iloc_col_in_range:
  "0 \<le> d \<Longrightarrow> d \<le> int (length (columns t)) - 1 \<Longrightarrow>
   iloc_col t d = Inr (map (\<lambda>r. r ! nat d) (rows t))"
  by (simp add: iloc_col_def py_index_def)

lemma py_index_mem: "py_index xs i = Inr x \<Longrightarrow> x \<in> set xs"
  by (auto simp: py_index_def split: if_splits)

lemma saved_on_current [simp]: "saved (on_current f st) = saved st"
  by (simp add: on_current_def split: list.splits)

lemma stdout_on_current [simp]: "stdout (on_current f st) = stdout st"
  by (simp add: on_current_def split: list.splits)

lemma and_then_error [simp]: "and_then (Some e, st) f = (Some e, st)"
  by (simp add: and_then_def)

lemma and_then_done [simp]: "and_then (None, st) f = f st"
  by (simp add: and_then_def)

lemma plt_plot_saved: "saved (snd (plt_plot be x y c l st)) = saved st"
  by (simp add: plt_plot_def add_line_def split: option.splits)

lemma plot_column_saved: "saved (snd (plot_column be df cols d st)) = saved st"
  by (simp add: plot_column_def plt_plot_saved split: option.splits sum.splits)

text \<open>
  An error of the loop body on a table leaves the state as it was, and is an
  \<^verbatim>\<open>IndexError\<close> of a lookup unless the backend refuses one of the colours.
\<close>

lemma plot_column_error:
  assumes "plot_column be (Some t) cols d st = (Some e, st')"
  shows "st' = st \<and> (e = IndexError \<or> (\<exists>c \<in> set cols. plot_error be c = Some e))"
proof (cases "d \<le> int (length (columns t)) - 1")
  case False
  with assms show ?thesis by (simp add: plot_column_def)
next
  case True
  show ?thesis
  proof (cases "iloc_col t 0")
    case (Inl a)
    with assms True iloc_col_error [OF Inl] show ?thesis by (simp add: plot_column_def)
  next
    case x: (Inr x)
    show ?thesis
    proof (cases "iloc_col t d")
      case (Inl a)
      with assms True x iloc_col_error [OF Inl] show ?thesis by (simp add: plot_column_def)
    next
      case y: (Inr y)
      show ?thesis
      proof (cases "py_index cols (d - 1)")
        case (Inl a)
        with assms True x y py_index_error [OF Inl] show ?thesis by (simp add: plot_column_def)
      next
        case c: (Inr c)
        show ?thesis
        proof (cases "py_index (columns t) (d - 1)")
          case (Inl a)
          with assms True x y c py_index_error [OF Inl] show ?thesis
            by (simp add: plot_column_def)
        next
          case l: (Inr l)
          from assms True x y c l have "plt_plot be x y c l st = (Some e, st')"
            by (simp add: plot_column_def)
          then have "plot_error be c = Some e \<and> st' = st"
            by (simp add: plt_plot_def split: option.splits)
          with py_index_mem [OF c] show ?thesis by blast
        qed
      qed
    qed
  qed
qed

lemma plot_columns_saved: "saved (snd (plot_columns be df cols ds st)) = saved st"
proof (induction ds arbitrary: st)
  case Nil
  then show ?case by simp
next
  case (Cons d ds)
  show ?case
  proof (cases "plot_column be df cols d st")
    case (Pair r st')
    with Cons.IH [of st'] plot_column_saved [of be df cols d st] show ?thesis
      by (cases r) auto
  qed
qed

lemma plot_columns_error:
  assumes "\<forall>c \<in> set cols. plot_error be c = None"
  shows "plot_columns be (Some t) cols ds st = (Some e, st') \<Longrightarrow> e = IndexError"
proof (induction ds arbitrary: st)
  case Nil
  then show ?case by simp
next
  case (Cons d ds)
  show ?case
  proof (cases "plot_column be (Some t) cols d st")
    case (Pair r st1)
    show ?thesis
    proof (cases r)
      case None
      with Pair Cons show ?thesis by simp
    next
      case (Some e')
      with Pair Cons.prems have "plot_column be (Some t) cols d st = (Some e, st')" by simp
      from plot_column_error [OF this] assms show ?thesis by auto
    qed
  qed
qed

lemma plot_columns_fails:
  assumes "d \<in> set ds" and "\<And>s. fst (plot_column be df cols d s) \<noteq> None"
  shows "fst (plot_columns be df cols ds st) \<noteq> None"
  using assms(1)
proof (induction ds arbitrary: st)
  case Nil
  then show ?case by simp
next
  case (Cons a ds)
  show ?case
  proof (cases "plot_column be df cols a st")
    case (Pair r st1)
    show ?thesis
    proof (cases r)
      case None
      with Pair assms(2) [of st] have "a \<noteq> d" by auto
      with Cons.prems have "d \<in> set ds" by simp
      from Cons.IH [OF this, of st1] Pair None show ?thesis by simp
    next
      case (Some e)
      with Pair show ?thesis by simp
    qed
  qed
qed

lemma py_index_last: "xs \<noteq> [] \<Longrightarrow> py_index xs (- 1) = Inr (last xs)"
proof -
  assume ne: "xs \<noteq> []"
  then have len: "Suc 0 \<le> length xs" by (cases xs) auto
  then have "nat (int (length xs) + - 1) = length xs - 1" by auto
  with ne len show ?thesis by (simp add: py_index_def last_conv_nth)
qed

lemma py_index_nonneg:
  "0 \<le> i \<Longrightarrow> i < int (length xs) \<Longrightarrow> py_index xs i = Inr (xs ! nat i)"
  by (simp add: py_index_def)


lemma plot_column_skips:
  "int (length (columns t)) \<le> d \<Longrightarrow> plot_column be (Some t) cols d st = (None, st)"
  by (simp add: plot_column_def)


text \<open>
  Below the column count the loop body reads both columns and both names and calls
  \<^verbatim>\<open>plt.plot\<close> when the lookups succeed.
\<close>

lemma plot_column_calls_plot:
  assumes "0 \<le> d" "d \<le> int (length (columns t)) - 1" "py_index cols (d - 1) = Inr c"
  shows "\<exists>l. py_index (columns t) (d - 1) = Inr l \<and>
    plot_column be (Some t) cols d st =
      plt_plot be (map (\<lambda>r. r ! 0) (rows t)) (map (\<lambda>r. r ! nat d) (rows t)) c l st"
proof -
  have z: "(0::int) \<le> int (length (columns t)) - 1" using assms by linarith
  have x: "iloc_col t 0 = Inr (map (\<lambda>r. r ! nat 0) (rows t))"
    by (rule iloc_col_in_range [OF _ z]) simp
  have y: "iloc_col t d = Inr (map (\<lambda>r. r ! nat d) (rows t))"
    by (rule iloc_col_in_range [OF assms(1) assms(2)])
  have ne: "columns t \<noteq> []" using z by auto
  have "\<exists>l. py_index (columns t) (d - 1) = Inr l"
  proof (cases "d = 0")
    case True
    with py_index_last [OF ne] show ?thesis by simp
  next
    case False
    with assms have "0 \<le> d - 1" "d - 1 < int (length (columns t))" by linarith+
    from py_index_nonneg [OF this] show ?thesis by blast
  qed
  then obtain l where l: "py_index (columns t) (d - 1) = Inr l" by blast
  show ?thesis using assms(2) by (simp add: plot_column_def x y l assms(3))
qed

lemma plot_column_draws:
  assumes "0 \<le> d" "d \<le> int (length (columns t)) - 1" "py_index cols (d - 1) = Inr c"
    and "plot_error be c = None"
  shows "\<exists>l. py_index (columns t) (d - 1) = Inr l \<and>
    plot_column be (Some t) cols d st =
      (None, add_line (map (\<lambda>r. r ! 0) (rows t)) (map (\<lambda>r. r ! nat d) (rows t)) c l st)"
  using plot_column_calls_plot [OF assms(1,2,3), of be st] assms(4)
  by (simp add: plt_plot_def)

lemma plot_column_refused:
  assumes "0 \<le> d" "d \<le> int (length (columns t)) - 1" "py_index cols (d - 1) = Inr c"
    and "plot_error be c = Some e"
  shows "plot_column be (Some t) cols d st = (Some e, st)"
  using plot_column_calls_plot [OF assms(1,2,3), of be st] assms(4)
  by (auto simp: plt_plot_def)

lemma plot_column_lookup_fails:
  assumes "0 \<le> d" "d \<le> int (length (columns t)) - 1" "py_index cols (d - 1) = Inl IndexError"
  shows "plot_column be (Some t) cols d st = (Some IndexError, st)"
proof -
  have z: "(0::int) \<le> int (length (columns t)) - 1" using assms by linarith
  have x: "iloc_col t 0 = Inr (map (\<lambda>r. r ! nat 0) (rows t))"
    by (rule iloc_col_in_range [OF _ z]) simp
  have y: "iloc_col t d = Inr (map (\<lambda>r. r ! nat d) (rows t))"
    by (rule iloc_col_in_range [OF assms(1) assms(2)])
  show ?thesis using assms(2) by (simp add: plot_column_def x y assms(3))
qed

lemma plot_column_color_error:
  assumes "0 \<le> d" "d \<le> int (length (columns t)) - 1" "int (length cols) \<le> d - 1"
  shows "plot_column be (Some t) cols d st = (Some IndexError, st)"
proof -
  have "py_index cols (d - 1) = Inl IndexError" using assms by (simp add: py_index_def)
  from plot_column_lookup_fails [OF assms(1,2) this] show ?thesis .
qed

text \<open>
  \<^verbatim>\<open>plot_df\<close> once the order has converted and the figure is open: an error of the loop
  ends it; after the loop come the labels, the layout, the image and the close.
\<close>

lemma plot_df_figure_refused:
  assumes "column_indices_of (column_order ps) = Inr idxs"
    and "figure_error be (width ps, height ps) = Some e"
  shows "plot_df be df nm ps st = (Some e, rc_update_font_size (font_size ps) st)"
  using assms by (simp add: plot_df_def plt_figure_def)

lemma plot_df_loop_error:
  assumes "column_indices_of (column_order ps) = Inr idxs"
    and "figure_error be (width ps, height ps) = None"
    and "plot_columns be df (colors ps) idxs
           (open_figure (width ps) (height ps) (rc_update_font_size (font_size ps) st))
         = (Some e, st1)"
  shows "plot_df be df nm ps st = (Some e, st1)"
  using assms by (simp add: plot_df_def plt_figure_def)

lemma plot_df_loop_done:
  assumes "column_indices_of (column_order ps) = Inr idxs"
    and "figure_error be (width ps, height ps) = None"
    and "plot_columns be df (colors ps) idxs
           (open_figure (width ps) (height ps) (rc_update_font_size (font_size ps) st))
         = (None, st1)"
  shows "plot_df be df nm ps st =
     and_then
       (plt_tight_layout be
          ((if legend ps then plt_legend else id)
             (plt_ylabel (y_label ps) (plt_xlabel (x_label ps) st1))))
       (\<lambda>s3. and_then
                (plt_savefig be (nm @ ''.'' @ image_data_type ps) (image_data_type ps) s3)
                (\<lambda>s4. (None, plt_close s4)))"
  using assms by (simp add: plot_df_def plt_figure_def)

section \<open>Facts about the directory walk\<close>

lemma txt_of_walk_append: "txt_of_walk (v @ w) = txt_of_walk v @ txt_of_walk w"
  by (simp add: txt_of_walk_def)

lemma txt_of_walk_concat: "txt_of_walk (concat ws) = concat (map txt_of_walk ws)"
  by (induction ws) (simp_all add: txt_of_walk_append, simp add: txt_of_walk_def)



lemma txt_of_walk_single:
  "txt_of_walk [(tp, ds, fs)] = map (path_join tp) (filter (\<lambda>f. endswith f ''.txt'') fs)"
  by (simp add: txt_of_walk_def)

lemma txt_under_Dir:
  "txt_under tp (Dir es) =
     map (path_join tp) (filter (\<lambda>f. endswith f ''.txt'')
        (map fst (filter (\<lambda>ne. \<not> is_dir (snd ne)) es)))
     @ concat (map (\<lambda>ne. txt_under (path_join tp (fst ne)) (snd ne))
                   (filter (\<lambda>ne. is_dir (snd ne)) es))"
proof -
  have own: "map fst (filter (\<lambda>pf. endswith (snd pf) ''.txt'')
          (map (\<lambda>ne. (path_join tp (fst ne), fst ne)) xs))
      = map (path_join tp) (filter (\<lambda>f. endswith f ''.txt'') (map fst xs))" for xs
    by (induction xs) simp_all
  have sub: "map fst (filter (\<lambda>pf. endswith (snd pf) ''.txt'')
          (concat (map (\<lambda>ne. files_under (path_join tp (fst ne)) (snd ne)) xs)))
      = concat (map (\<lambda>ne. txt_under (path_join tp (fst ne)) (snd ne)) xs)" for xs
    by (induction xs) (simp_all add: txt_under_def)
  show ?thesis
    unfolding txt_under_def [of tp "Dir es"] files_under.simps filter_append map_append own sub
    by (rule refl)
qed

lemma txt_of_walk_os_walk: "txt_of_walk (os_walk tp node) = txt_under tp node"
proof (induction tp node rule: os_walk.induct)
  case (1 tp)
  show ?case by (simp add: txt_of_walk_def txt_under_def)
next
  case (2 tp)
  show ?case by (simp add: txt_of_walk_def txt_under_def)
next
  case (3 tp es)
  let ?ds = "filter (\<lambda>ne. is_dir (snd ne)) es"
  let ?fs = "map fst (filter (\<lambda>ne. \<not> is_dir (snd ne)) es)"
  have sub: "map (\<lambda>ne. txt_of_walk (os_walk (path_join tp (fst ne)) (snd ne))) ?ds
           = map (\<lambda>ne. txt_under (path_join tp (fst ne)) (snd ne)) ?ds"
    by (rule map_cong [OF refl]) (rule 3, simp)
  have "txt_of_walk (os_walk tp (Dir es)) =
        txt_of_walk ([(tp, map fst ?ds, ?fs)]
          @ concat (map (\<lambda>ne. os_walk (path_join tp (fst ne)) (snd ne)) ?ds))"
    by simp
  also have "\<dots> = txt_of_walk [(tp, map fst ?ds, ?fs)]
        @ concat (map txt_of_walk (map (\<lambda>ne. os_walk (path_join tp (fst ne)) (snd ne)) ?ds))"
    by (simp only: txt_of_walk_append txt_of_walk_concat)
  also have "\<dots> = map (path_join tp) (filter (\<lambda>f. endswith f ''.txt'') ?fs)
        @ concat (map (\<lambda>ne. txt_of_walk (os_walk (path_join tp (fst ne)) (snd ne))) ?ds)"
    by (simp only: txt_of_walk_single map_map comp_def)
  also have "\<dots> = txt_under tp (Dir es)"
    by (simp only: sub txt_under_Dir)
  finally show ?case .
qed



lemma files_under_Dir_iff:
  "(p, f) \<in> set (files_under tp (Dir es)) \<longleftrightarrow>
     (\<exists>ne \<in> set es. \<not> is_dir (snd ne) \<and> p = path_join tp (fst ne) \<and> f = fst ne)
   \<or> (\<exists>ne \<in> set es. is_dir (snd ne) \<and> (p, f) \<in> set (files_under (path_join tp (fst ne)) (snd ne)))"
proof -
  have a: "(p, f) \<in> set (map (\<lambda>ne. (path_join tp (fst ne), fst ne)) (filter (\<lambda>ne. \<not> is_dir (snd ne)) es))
      \<longleftrightarrow> (\<exists>ne \<in> set es. \<not> is_dir (snd ne) \<and> p = path_join tp (fst ne) \<and> f = fst ne)"
    unfolding set_map set_filter image_iff by blast
  have b: "(p, f) \<in> set (concat (map (\<lambda>ne. files_under (path_join tp (fst ne)) (snd ne))
                   (filter (\<lambda>ne. is_dir (snd ne)) es)))
      \<longleftrightarrow> (\<exists>ne \<in> set es. is_dir (snd ne) \<and> (p, f) \<in> set (files_under (path_join tp (fst ne)) (snd ne)))"
    unfolding set_concat set_map set_filter by blast
  show ?thesis
    unfolding files_under.simps set_append Un_iff a b by (rule refl)
qed

lemma files_under_sound: "(p, f) \<in> set (files_under tp node) \<Longrightarrow> file_under tp node p f"
proof (induction tp node arbitrary: p f rule: files_under.induct)
  case (1 tp)
  then show ?case by simp
next
  case (2 tp)
  then show ?case by simp
next
  case (3 tp es)
  from "3.prems" [unfolded files_under_Dir_iff] show ?case
  proof
    assume "\<exists>ne \<in> set es. \<not> is_dir (snd ne) \<and> p = path_join tp (fst ne) \<and> f = fst ne"
    then obtain n e where "(n, e) \<in> set es" "\<not> is_dir e" "p = path_join tp n" "f = n"
      by auto
    then show ?thesis using file_under.here [of n e es tp] by simp
  next
    assume "\<exists>ne \<in> set es. is_dir (snd ne) \<and> (p, f) \<in> set (files_under (path_join tp (fst ne)) (snd ne))"
    then obtain ne where ne: "ne \<in> set es" "is_dir (snd ne)"
        "(p, f) \<in> set (files_under (path_join tp (fst ne)) (snd ne))"
      by blast
    from ne(1,2) have mem: "ne \<in> set (filter (\<lambda>ne. is_dir (snd ne)) es)" by simp
    from "3.IH" [OF mem ne(3)] have "file_under (path_join tp (fst ne)) (snd ne) p f" .
    moreover from ne(1) have "(fst ne, snd ne) \<in> set es" by simp
    ultimately show ?thesis using ne(2) by (rule_tac file_under.below)
  qed
qed



lemma files_under_complete: "file_under tp node p f \<Longrightarrow> (p, f) \<in> set (files_under tp node)"
proof (induction rule: file_under.induct)
  case (here n e es tp)
  have "\<exists>ne \<in> set es. \<not> is_dir (snd ne) \<and> path_join tp n = path_join tp (fst ne) \<and> n = fst ne"
    by (rule bexI [of _ "(n, e)"]) (simp_all add: here)
  then show ?case unfolding files_under_Dir_iff by (rule disjI1)
next
  case (below n e es tp p f)
  have "\<exists>ne \<in> set es. is_dir (snd ne) \<and> (p, f) \<in> set (files_under (path_join tp (fst ne)) (snd ne))"
    by (rule bexI [of _ "(n, e)"]) (simp_all add: below)
  then show ?case unfolding files_under_Dir_iff by (rule disjI2)
qed

lemma set_txt_under:
  "set (txt_under tp node) = {p. \<exists>f. file_under tp node p f \<and> endswith f ''.txt''}"
proof -
  have "set (txt_under tp node) = {p. \<exists>f. (p, f) \<in> set (files_under tp node) \<and> endswith f ''.txt''}"
    unfolding txt_under_def set_map set_filter by force
  also have "\<dots> = {p. \<exists>f. file_under tp node p f \<and> endswith f ''.txt''}"
    using files_under_sound files_under_complete by blast
  finally show ?thesis .
qed

lemma main_no_files:
  assumes "fst (get_txt_files env dir st) = []"
  shows "fst (main env dir ps st) = None \<and> saved (snd (main env dir ps st)) = saved st"
proof (cases "tree_at env dir")
  case (Inl e)
  then show ?thesis by (simp add: main_def get_txt_files_def)
next
  case (Inr node)
  with assms show ?thesis by (simp add: main_def get_txt_files_def)
qed

section \<open>Facts about the batch\<close>

lemma plot_column_ok:
  assumes "0 \<le> d" "int (length (columns t)) \<le> d \<or> draws be cols d"
  shows "fst (plot_column be (Some t) cols d st) = None"
proof (cases "int (length (columns t)) \<le> d")
  case True
  then show ?thesis by (simp add: plot_column_skips)
next
  case False
  with assms(2) have "draws be cols d" by simp
  then obtain c where c: "py_index cols (d - 1) = Inr c" and ok: "plot_error be c = None"
    by (auto simp: draws_def split: sum.splits)
  from False have le: "d \<le> int (length (columns t)) - 1" by linarith
  from plot_column_draws [OF assms(1) le c ok, of st] show ?thesis by auto
qed

lemma plot_columns_ok:
  "list_all (\<lambda>d. 0 \<le> d \<and> (int (length (columns t)) \<le> d \<or> draws be cols d)) ds
   \<Longrightarrow> fst (plot_columns be (Some t) cols ds st) = None"
proof (induction ds arbitrary: st)
  case Nil
  then show ?case by simp
next
  case (Cons d ds)
  from Cons.prems have d: "0 \<le> d" "int (length (columns t)) \<le> d \<or> draws be cols d"
    and rest: "list_all (\<lambda>d. 0 \<le> d \<and> (int (length (columns t)) \<le> d \<or> draws be cols d)) ds"
    by simp_all
  obtain r st1 where step: "plot_column be (Some t) cols d st = (r, st1)"
    by (cases "plot_column be (Some t) cols d st")
  with plot_column_ok [OF d, of st] have "r = None" by simp
  with step Cons.IH [OF rest, of st1] show ?case by simp
qed

text \<open>No call of the loop, and no label, changes the size of the current figure.\<close>

lemma figsize_on_current:
  "(\<And>fg. figsize (f fg) = figsize fg) \<Longrightarrow>
   figsize (current_figure (on_current f st)) = figsize (current_figure st)"
  by (simp add: on_current_def current_figure_def split: list.splits)

lemma figsize_add_line:
  "figsize (current_figure (add_line x y c l st)) = figsize (current_figure st)"
  unfolding add_line_def by (rule figsize_on_current) simp

lemma figsize_plt_plot:
  "figsize (current_figure (snd (plt_plot be x y c l st))) = figsize (current_figure st)"
  by (simp add: plt_plot_def figsize_add_line split: option.splits)

lemma figsize_plot_column:
  "figsize (current_figure (snd (plot_column be df cols d st))) = figsize (current_figure st)"
  by (simp add: plot_column_def figsize_plt_plot split: option.splits sum.splits)

lemma figsize_plot_columns:
  "figsize (current_figure (snd (plot_columns be df cols ds st))) = figsize (current_figure st)"
proof (induction ds arbitrary: st)
  case Nil
  then show ?case by simp
next
  case (Cons d ds)
  show ?case
  proof (cases "plot_column be df cols d st")
    case (Pair r st')
    with Cons.IH [of st'] figsize_plot_column [of be df cols d st] show ?thesis
      by (cases r) auto
  qed
qed

lemma figsize_labels:
  "figsize (current_figure ((if lg then plt_legend else id) (plt_ylabel yl (plt_xlabel xl st))))
     = figsize (current_figure st)"
proof -
  have x: "figsize (current_figure (plt_xlabel xl s)) = figsize (current_figure s)" for s
    unfolding plt_xlabel_def by (rule figsize_on_current) simp
  have y: "figsize (current_figure (plt_ylabel yl s)) = figsize (current_figure s)" for s
    unfolding plt_ylabel_def by (rule figsize_on_current) simp
  have g: "figsize (current_figure (plt_legend s)) = figsize (current_figure s)" for s
    unfolding plt_legend_def by (rule figsize_on_current) simp
  show ?thesis by (cases lg) (simp_all add: x y g)
qed

lemma figsize_open_figure: "figsize (current_figure (open_figure w h st)) = (w, h)"
  by (simp add: open_figure_def current_figure_def new_figure_def)

lemma saved_labels:
  "saved ((if lg then plt_legend else id) (plt_ylabel yl (plt_xlabel xl st))) = saved st"
  by (simp add: plt_legend_def plt_ylabel_def plt_xlabel_def)

lemma saved_plt_close [simp]: "saved (plt_close st) = saved st"
  by (simp add: plt_close_def)

lemma written_plt_close: "written (plt_close st) = written st"
  by (simp add: written_def)

lemma written_store_image:
  "written (store_image n f st) = written st @ [(n, f)]"
  by (simp add: written_def store_image_def Let_def)

text \<open>
  Once the loop is through, the layout is asked for the size the figure was opened with,
  and the image is saved unless the backend refuses.
\<close>

lemma plot_df_after_loop:
  assumes idx: "column_indices_of (column_order ps) = Inr idxs"
    and fig: "figure_error be (width ps, height ps) = None"
    and run: "plot_columns be df (colors ps) idxs
           (open_figure (width ps) (height ps) (rc_update_font_size (font_size ps) st))
         = (None, st1)"
    and lay: "layout_error be (width ps, height ps) = None"
    and sav: "savefig_error be (nm @ ''.'' @ image_data_type ps) (image_data_type ps) = None"
  shows "plot_df be df nm ps st =
     (None, plt_close (store_image (nm @ ''.'' @ image_data_type ps) (image_data_type ps)
        (on_current (\<lambda>fg. fg\<lparr>fig_tight := True\<rparr>)
           ((if legend ps then plt_legend else id)
              (plt_ylabel (y_label ps) (plt_xlabel (x_label ps) st1))))))"
proof -
  let ?st0 = "open_figure (width ps) (height ps) (rc_update_font_size (font_size ps) st)"
  let ?st2 = "(if legend ps then plt_legend else id)
                (plt_ylabel (y_label ps) (plt_xlabel (x_label ps) st1))"
  from figsize_plot_columns [of be df "colors ps" idxs ?st0] run
  have "figsize (current_figure st1) = (width ps, height ps)"
    by (simp add: figsize_open_figure)
  then have sz: "figsize (current_figure ?st2) = (width ps, height ps)"
    by (simp only: figsize_labels)
  have tl: "plt_tight_layout be ?st2 = (None, on_current (\<lambda>fg. fg\<lparr>fig_tight := True\<rparr>) ?st2)"
    by (simp add: plt_tight_layout_def sz lay)
  have sf: "plt_savefig be (nm @ ''.'' @ image_data_type ps) (image_data_type ps) s
      = (None, store_image (nm @ ''.'' @ image_data_type ps) (image_data_type ps) s)" for s
    unfolding plt_savefig_def sav by simp
  show ?thesis
    unfolding plot_df_loop_done [OF idx fig run] tl and_then_done sf by (rule refl)
qed

lemma plot_df_ok:
  assumes "renders be t ps"
    and "savefig_error be (nm @ ''.'' @ image_data_type ps) (image_data_type ps) = None"
  shows "fst (plot_df be (Some t) nm ps st) = None
       \<and> written (snd (plot_df be (Some t) nm ps st))
           = written st @ [(nm @ ''.'' @ image_data_type ps, image_data_type ps)]"
proof -
  let ?st0 = "open_figure (width ps) (height ps) (rc_update_font_size (font_size ps) st)"
  let ?ds = "map digit_value (column_order ps)"
  from assms(1) have fig: "figure_error be (width ps, height ps) = None"
    and lay: "layout_error be (width ps, height ps) = None"
    by (simp_all add: renders_def)
  from assms(1) have dig: "list_all is_digit (column_order ps)"
    by (simp add: renders_def list_all_iff)
  from assms(1) have ok: "list_all (\<lambda>d. 0 \<le> d \<and> (int (length (columns t)) \<le> d
          \<or> draws be (colors ps) d)) ?ds"
    by (simp add: renders_def list_all_iff digit_value_nonneg)
  obtain r st1 where run: "plot_columns be (Some t) (colors ps) ?ds ?st0 = (r, st1)"
    by (cases "plot_columns be (Some t) (colors ps) ?ds ?st0")
  from plot_columns_ok [OF ok, of ?st0] run have r: "r = None" by simp
  from plot_columns_saved [of be "Some t" "colors ps" ?ds ?st0] run
  have sv: "saved st1 = saved st" by (simp add: open_figure_def rc_update_font_size_def)
  have w: "written (on_current (\<lambda>fg. fg\<lparr>fig_tight := True\<rparr>)
             ((if legend ps then plt_legend else id)
                (plt_ylabel (y_label ps) (plt_xlabel (x_label ps) st1)))) = written st"
    by (simp add: written_def saved_labels sv)
  note res = plot_df_after_loop
    [OF column_indices_of_digits [OF dig] fig run [unfolded r] lay assms(2)]
  show ?thesis
    unfolding res fst_conv snd_conv written_plt_close written_store_image w by simp
qed

text \<open>
  A call of \<^verbatim>\<open>plot_df\<close> that ends in an error has written no image: every error comes
  before the image is stored.
\<close>

lemma plot_df_error_writes_nothing:
  assumes "fst (plot_df be df nm ps st) \<noteq> None"
  shows "saved (snd (plot_df be df nm ps st)) = saved st"
proof (cases "column_indices_of (column_order ps)")
  case (Inl e)
  then show ?thesis by (simp add: plot_df_def)
next
  case (Inr idxs)
  let ?st0 = "open_figure (width ps) (height ps) (rc_update_font_size (font_size ps) st)"
  show ?thesis
  proof (cases "figure_error be (width ps, height ps)")
    case (Some e)
    from plot_df_figure_refused [OF Inr Some] show ?thesis
      by (simp add: rc_update_font_size_def)
  next
    case None
    obtain r st1 where run: "plot_columns be df (colors ps) idxs ?st0 = (r, st1)"
      by (cases "plot_columns be df (colors ps) idxs ?st0")
    from plot_columns_saved [of be df "colors ps" idxs ?st0] run
    have sv: "saved st1 = saved st" by (simp add: open_figure_def rc_update_font_size_def)
    show ?thesis
    proof (cases r)
      case (Some e)
      from plot_df_loop_error [OF Inr None run [unfolded Some]] sv show ?thesis by simp
    next
      case r: None
      let ?st2 = "(if legend ps then plt_legend else id)
                    (plt_ylabel (y_label ps) (plt_xlabel (x_label ps) st1))"
      note res = plot_df_loop_done [OF Inr None run [unfolded r], of nm]
      have sv2: "saved ?st2 = saved st" by (simp add: saved_labels sv)
      show ?thesis
      proof (cases "layout_error be (figsize (current_figure ?st2))")
        case (Some e)
        then show ?thesis unfolding res by (simp add: plt_tight_layout_def sv2)
      next
        case lay: None
        show ?thesis
        proof (cases "savefig_error be (nm @ ''.'' @ image_data_type ps) (image_data_type ps)")
          case (Some e)
          then have sf: "plt_savefig be (nm @ ''.'' @ image_data_type ps) (image_data_type ps) s
                           = (Some e, s)" for s
            unfolding plt_savefig_def by simp
          show ?thesis unfolding res plt_tight_layout_def lay sf
            by (simp add: saved_labels sv)
        next
          case sav: None
          then have sf: "plt_savefig be (nm @ ''.'' @ image_data_type ps) (image_data_type ps) s
              = (None, store_image (nm @ ''.'' @ image_data_type ps) (image_data_type ps) s)"
            for s
            unfolding plt_savefig_def by simp
          have "fst (plot_df be df nm ps st) = None"
            unfolding res plt_tight_layout_def lay sf by simp
          with assms show ?thesis by simp
        qed
      qed
    qed
  qed
qed

text \<open>
  On the example backend a format or a figure width it refuses ends the batch with the
  backend's error, and nothing is written.
\<close>

lemma main_refused_format:
  "fst (main ex_env ''data'' (main_defaults\<lparr>image_data_type := ''xyz''\<rparr>) initial_state)
     = Some ValueError
   \<and> saved (snd (main ex_env ''data'' (main_defaults\<lparr>image_data_type := ''xyz''\<rparr>)
                   initial_state)) = []"
  by code_simp

lemma main_refused_width:
  "fst (main ex_env ''data'' (main_defaults\<lparr>width := 0\<rparr>) initial_state) = Some ValueError
   \<and> saved (snd (main ex_env ''data'' (main_defaults\<lparr>width := 0\<rparr>) initial_state)) = []"
  by code_simp

lemma load_txt_ok:
  "pd_read_csv env tf = Inr t \<Longrightarrow> load_txt env tf st = (Some (dropna t), st)"
  by (simp add: load_txt_def)

lemma main_loop_ok:
  "list_all (loads_and_renders env ps) tfs \<Longrightarrow>
   fst (main_loop env ps tfs st) = None
   \<and> written (snd (main_loop env ps tfs st))
       = written st @ map (\<lambda>tf. (basename tf @ ''.'' @ image_data_type ps, image_data_type ps)) tfs"
proof (induction tfs arbitrary: st)
  case Nil
  then show ?case by simp
next
  case (Cons tf tfs)
  from Cons.prems obtain t where t: "pd_read_csv env tf = Inr t"
    and rn: "renders (pyplot env) (dropna t) ps"
    and sv: "savefig_error (pyplot env) (basename tf @ ''.'' @ image_data_type ps)
               (image_data_type ps) = None"
    by (auto simp: loads_and_renders_def split: sum.splits)
  from Cons.prems have rest: "list_all (loads_and_renders env ps) tfs" by simp
  obtain r st2 where pl: "plot_df (pyplot env) (Some (dropna t)) (basename tf) ps st = (r, st2)"
    by (cases "plot_df (pyplot env) (Some (dropna t)) (basename tf) ps st")
  from plot_df_ok [OF rn sv, of st] pl
  have r: "r = None"
    and w: "written st2 = written st @ [(basename tf @ ''.'' @ image_data_type ps, image_data_type ps)]"
    by simp_all
  from Cons.IH [OF rest, of st2] w
  show ?case by (simp add: load_txt_ok [OF t] pl r)
qed

lemma basename_no_sep: "CHR ''/'' \<notin> set (basename p)"
proof -
  have "\<forall>c \<in> set (takeWhile (\<lambda>c. c \<noteq> CHR ''/'') (rev p)). c \<noteq> CHR ''/''"
    by (metis set_takeWhileD)
  then show ?thesis by (auto simp: basename_def)
qed

lemma get_txt_files_saved: "saved (snd (get_txt_files env dir st)) = saved st"
  by (simp add: get_txt_files_def split: sum.splits)

text \<open>
  Without a table the first index of the loop raises: \<^verbatim>\<open>None\<close> has no \<^verbatim>\<open>columns\<close>.
\<close>

lemma plot_df_no_table:
  assumes "column_indices_of (column_order ps) = Inr (d # ds)"
    and "figure_error be (width ps, height ps) = None"
  shows "plot_df be None nm ps st =
           (Some AttributeError,
            open_figure (width ps) (height ps) (rc_update_font_size (font_size ps) st))"
  by (rule plot_df_loop_error [OF assms]) (simp add: plot_column_def)

lemma script_ignores_options:
  "script env (a\<lparr>arg_image_data_type := f, arg_x_label := x, arg_y_label := y\<rparr>) st = script env a st"
  by (simp add: script_def)

section \<open>Facts about the loader\<close>




text \<open>Every table the loader returns is rectangular, as the renderer's column reads assume.\<close>

lemma rectangular_dropna: "rectangular df \<Longrightarrow> rectangular (dropna df)"
  by (simp add: rectangular_def dropna_def list_all_iff)

lemma rectangular_read_csv_text:
  assumes "read_csv_text na text = Inr df"
  shows "rectangular df"
proof (cases "filter (\<lambda>l. l \<noteq> []) (drop 1 (split_on newline text))")
  case Nil
  with assms show ?thesis by (simp add: read_csv_text_def)
next
  case (Cons h ls)
  let ?n = "length (split_on tab h)"
  let ?recs = "map (split_on tab) ls"
  from assms Cons have short: "\<not> list_ex (\<lambda>r. ?n < length r) ?recs"
    by (auto simp: read_csv_text_def Let_def split: if_splits)
  from assms Cons short have df: "df = \<lparr>columns = split_on tab h,
      rows = map (\<lambda>r. map (\<lambda>f. if na f then None else Some f) r @ replicate (?n - length r) None) ?recs\<rparr>"
    by (simp add: read_csv_text_def Let_def)
  from short have "\<forall>r \<in> set ?recs. length r \<le> ?n" by (auto simp: list_ex_iff not_less)
  then show ?thesis unfolding df by (simp add: rectangular_def list_all_iff)
qed

lemma rectangular_load_txt:
  "load_txt env file_path st = (Some df, st') \<Longrightarrow> rectangular df"
  by (auto simp: load_txt_def pd_read_csv_def split: sum.splits if_splits
      intro: rectangular_dropna rectangular_read_csv_text)

section \<open>The claims about the renderer\<close>

text \<open>
  Claim C9.  For every table, when the column-selection order holds a character that is
  no decimal digit, \<^verbatim>\<open>plot_df\<close> raises \<^verbatim>\<open>ValueError\<close> while it converts the order, and
  the backend is left as it was: no figure has been opened and no file written.
\<close>

theorem plot_df_non_digit_order:
  assumes "\<exists>c \<in> set (column_order ps). \<not> is_digit c"
  shows "plot_df be df image_file_name ps st = (Some ValueError, st)"
  using column_indices_of_non_digit [OF assms] by (simp add: plot_df_def)

theorem plot_df_non_digit_order_witness:
  "(\<exists>c \<in> set ''3a2''. \<not> is_digit c) \<and>
   plot_df ex_backend (Some ex_table) ''sample.txt'' (plot_df_defaults\<lparr>column_order := ''3a2''\<rparr>)
     initial_state = (Some ValueError, initial_state)"
proof -
  have h: "\<exists>c \<in> set (column_order (plot_df_defaults\<lparr>column_order := ''3a2''\<rparr>)). \<not> is_digit c"
    by (simp add: is_digit_def)
  from plot_df_non_digit_order
         [OF h, of ex_backend "Some ex_table" "''sample.txt''" initial_state] h
  show ?thesis by simp
qed

text \<open>
  Claim C7.  For every table and plot configuration: when some digit \<open>d\<close> of the order
  passes the column guard (\<open>d \<le> len(df.columns) - 1\<close>, so its column would be drawn) and
  \<open>d - 1\<close> is at least the length of the colour list, \<^verbatim>\<open>plot_df\<close> ends in an error and
  writes no image: the series is never drawn with a colour wrapped around the list.  When
  the backend accepts the figure size and the colours of the list, the error is the
  \<^verbatim>\<open>IndexError\<close> of the colour lookup, or \<^verbatim>\<open>ValueError\<close> when the order also holds a
  character that is no digit.
\<close>

theorem plot_df_short_color_list:
  assumes "c \<in> set (column_order ps)" and "is_digit c"
    and "digit_value c \<le> int (length (columns t)) - 1"
    and "int (length (colors ps)) \<le> digit_value c - 1"
  shows "fst (plot_df be (Some t) image_file_name ps st) \<noteq> None
       \<and> saved (snd (plot_df be (Some t) image_file_name ps st)) = saved st
       \<and> (figure_error be (width ps, height ps) = None
            \<and> list_all (\<lambda>k. plot_error be k = None) (colors ps) \<longrightarrow>
          fst (plot_df be (Some t) image_file_name ps st) \<in> {Some ValueError, Some IndexError})"
proof -
  let ?st0 = "open_figure (width ps) (height ps) (rc_update_font_size (font_size ps) st)"
  let ?ds = "map digit_value (column_order ps)"
  from column_indices_of_cases [of "column_order ps"] show ?thesis
  proof
    assume "column_indices_of (column_order ps) = Inl ValueError"
    then show ?thesis by (simp add: plot_df_def)
  next
    assume idx: "column_indices_of (column_order ps) = Inr ?ds"
    show ?thesis
    proof (cases "figure_error be (width ps, height ps)")
      case (Some e)
      from plot_df_figure_refused [OF idx Some] show ?thesis
        by (simp add: Some rc_update_font_size_def)
    next
      case None
      have mem: "digit_value c \<in> set ?ds" using assms(1) by simp
      have bad: "\<And>s. fst (plot_column be (Some t) (colors ps) (digit_value c) s) \<noteq> None"
        using plot_column_color_error [OF digit_value_nonneg [OF assms(2)] assms(3) assms(4)]
        by simp
      obtain r st1 where run: "plot_columns be (Some t) (colors ps) ?ds ?st0 = (r, st1)"
        by (cases "plot_columns be (Some t) (colors ps) ?ds ?st0")
      from plot_columns_fails [OF mem bad, of ?st0] run obtain e where r: "r = Some e"
        by (cases r) auto
      from plot_columns_saved [of be "Some t" "colors ps" ?ds ?st0] run
      have sv: "saved st1 = saved st" by (simp add: open_figure_def rc_update_font_size_def)
      have res: "plot_df be (Some t) image_file_name ps st = (Some e, st1)"
        by (rule plot_df_loop_error [OF idx None]) (simp add: run r)
      have "e = IndexError" if "list_all (\<lambda>k. plot_error be k = None) (colors ps)"
      proof -
        from that have "\<forall>k \<in> set (colors ps). plot_error be k = None"
          by (simp add: list_all_iff)
        from plot_columns_error [OF this] run r show ?thesis by simp
      qed
      with res sv show ?thesis by simp
    qed
  qed
qed

theorem plot_df_short_color_list_witness:
  "CHR ''2'' \<in> set ''32'' \<and> is_digit (CHR ''2'')
   \<and> digit_value (CHR ''2'') \<le> int (length (columns ex_table)) - 1
   \<and> int (length [''red'']) \<le> digit_value (CHR ''2'') - 1
   \<and> figure_error ex_backend (10, 6) = None
   \<and> list_all (\<lambda>k. plot_error ex_backend k = None) [''red'']
   \<and> fst (plot_df ex_backend (Some ex_table) ''sample.txt''
            (plot_df_defaults\<lparr>colors := [''red''], column_order := ''32''\<rparr>) initial_state)
       \<in> {Some ValueError, Some IndexError}
   \<and> saved (snd (plot_df ex_backend (Some ex_table) ''sample.txt''
            (plot_df_defaults\<lparr>colors := [''red''], column_order := ''32''\<rparr>) initial_state))
       = saved initial_state"
proof -
  let ?ps = "plot_df_defaults\<lparr>colors := [''red''], column_order := ''32''\<rparr>"
  have h1: "CHR ''2'' \<in> set (column_order ?ps)" by simp
  have h2: "is_digit (CHR ''2'')" by (simp add: is_digit_def)
  have h3: "digit_value (CHR ''2'') \<le> int (length (columns ex_table)) - 1"
    by (simp add: digit_value_def ex_table_def)
  have h4: "int (length (colors ?ps)) \<le> digit_value (CHR ''2'') - 1"
    by (simp add: digit_value_def)
  have b1: "figure_error ex_backend (width ?ps, height ?ps) = None"
    by (simp add: ex_backend_def plot_df_defaults_def)
  have b2: "list_all (\<lambda>k. plot_error ex_backend k = None) (colors ?ps)"
    by (simp add: ex_backend_def)
  from plot_df_short_color_list [OF h1 h2 h3 h4, of ex_backend "''sample.txt''" initial_state]
       h1 h2 h3 h4 b1 b2
  show ?thesis by (simp add: plot_df_defaults_def)
qed




text \<open>
  Claim C4 (a defect of the code).  The series of digit \<open>d\<close> takes its values from
  \<^verbatim>\<open>df.iloc[ :, col_idx ]\<close> and its label from \<^verbatim>\<open>df.columns[ col_idx - 1 ]\<close>: the legend
  names the column before the one that is plotted.  On the example table the digit 1
  plots the values of column \<^verbatim>\<open>A\<close> in the first colour under the label \<^verbatim>\<open>Distance\<close>.
\<close>

theorem label_names_preceding_column:
  "plot_column ex_backend (Some ex_table) [''red'', ''green'', ''blue''] 1 initial_state =
     (None, add_line [Some ''0.0'', Some ''0.5''] [Some ''1'', Some ''4''] ''red'' ''Distance''
              initial_state)
   \<and> iloc_col ex_table 1 = Inr [Some ''1'', Some ''4'']
   \<and> py_index (columns ex_table) 1 = Inr ''A''
   \<and> py_index (columns ex_table) (1 - 1) = Inr ''Distance''"
  by (simp add: plot_column_def ex_table_def iloc_col_def py_index_def plt_plot_def
      ex_backend_def)



section \<open>The claims about the discoverer\<close>

text \<open>
  Claim C8.  When the walk finds a tree at the root, \<^verbatim>\<open>get_txt_files\<close> returns the paths
  of the files under the root whose name ends with \<^verbatim>\<open>.txt\<close>, in directory-walk order
  (\<open>txt_under\<close>), and these are exactly the paths of such files; it prints nothing.  With
  no such file under the root the result is empty.  A root that cannot be listed, that is
  no directory, or on which the walk raises gives the empty list as well.  Whenever the
  list is empty, \<^verbatim>\<open>main\<close> returns without an error and writes no image.
\<close>

theorem get_txt_files_exact:
  "(tree_at env dir = Inr node \<longrightarrow>
       get_txt_files env dir st = (txt_under dir node, st)
     \<and> set (fst (get_txt_files env dir st))
         = {p. \<exists>f. file_under dir node p f \<and> endswith f ''.txt''}
     \<and> (list_all (\<lambda>pf. \<not> endswith (snd pf) ''.txt'') (files_under dir node) \<longrightarrow>
          fst (get_txt_files env dir st) = []))
   \<and> (tree_at env dir = Inr NoAccess \<or> tree_at env dir = Inr File \<or> (\<exists>e. tree_at env dir = Inl e) \<longrightarrow>
        fst (get_txt_files env dir st) = [])
   \<and> (fst (get_txt_files env dir st) = [] \<longrightarrow>
        fst (main env dir ps st) = None \<and> saved (snd (main env dir ps st)) = saved st)"
proof -
  have found: "get_txt_files env dir st = (txt_under dir node, st)" if "tree_at env dir = Inr node"
    using that by (simp add: get_txt_files_def txt_of_walk_os_walk)
  have exact: "set (fst (get_txt_files env dir st))
         = {p. \<exists>f. file_under dir node p f \<and> endswith f ''.txt''}" if "tree_at env dir = Inr node"
    using found [OF that] by (simp add: set_txt_under)
  have none: "fst (get_txt_files env dir st) = []"
    if "tree_at env dir = Inr node"
      and "list_all (\<lambda>pf. \<not> endswith (snd pf) ''.txt'') (files_under dir node)"
  proof -
    from that(2) have "filter (\<lambda>pf. endswith (snd pf) ''.txt'') (files_under dir node) = []"
      by (simp add: list_all_iff filter_empty_conv)
    with found [OF that(1)] show ?thesis by (simp add: txt_under_def)
  qed
  have closed: "fst (get_txt_files env dir st) = []"
    if "tree_at env dir = Inr NoAccess \<or> tree_at env dir = Inr File \<or> (\<exists>e. tree_at env dir = Inl e)"
    using that by (auto simp: get_txt_files_def txt_of_walk_def)
  from found exact none closed main_no_files [of env dir st ps] show ?thesis by blast
qed

theorem get_txt_files_exact_witness:
  "tree_at ex_env_tree ''data'' =
       Inr (Dir [(''a.txt'', File), (''sub'', Dir [(''b.txt'', File), (''c.dat'', File)]),
                 (''locked'', NoAccess), (''z.txt'', File)])
   \<and> get_txt_files ex_env_tree ''data'' initial_state
       = ([''data/a.txt'', ''data/z.txt'', ''data/sub/b.txt''], initial_state)
   \<and> tree_at ex_env_tree ''plain'' = Inr (Dir [(''notes.dat'', File)])
   \<and> list_all (\<lambda>pf. \<not> endswith (snd pf) ''.txt'') (files_under ''plain'' (Dir [(''notes.dat'', File)]))
   \<and> fst (get_txt_files ex_env_tree ''plain'' initial_state) = []
   \<and> fst (main ex_env_tree ''plain'' main_defaults initial_state) = None
   \<and> saved (snd (main ex_env_tree ''plain'' main_defaults initial_state)) = saved initial_state
   \<and> tree_at ex_env_tree ''gone'' = Inr NoAccess
   \<and> fst (get_txt_files ex_env_tree ''gone'' initial_state) = []
   \<and> fst (main ex_env_tree ''gone'' main_defaults initial_state) = None
   \<and> saved (snd (main ex_env_tree ''gone'' main_defaults initial_state)) = saved initial_state"
proof -
  let ?data = "Dir [(''a.txt'', File), (''sub'', Dir [(''b.txt'', File), (''c.dat'', File)]),
                 (''locked'', NoAccess), (''z.txt'', File)]"
  let ?plain = "Dir [(''notes.dat'', File)]"
  have d: "tree_at ex_env_tree ''data'' = Inr ?data" by (simp add: ex_env_tree_def)
  have p: "tree_at ex_env_tree ''plain'' = Inr ?plain" by (simp add: ex_env_tree_def)
  have g: "tree_at ex_env_tree ''gone'' = Inr NoAccess" by (simp add: ex_env_tree_def)
  have td: "txt_under ''data'' ?data = [''data/a.txt'', ''data/z.txt'', ''data/sub/b.txt'']"
    by (simp add: txt_under_def path_join_def endswith_def)
  have np: "list_all (\<lambda>pf. \<not> endswith (snd pf) ''.txt'') (files_under ''plain'' ?plain)"
    by (simp add: endswith_def)
  note D = get_txt_files_exact [of ex_env_tree "''data''" ?data initial_state main_defaults]
  note P = get_txt_files_exact [of ex_env_tree "''plain''" ?plain initial_state main_defaults]
  note G = get_txt_files_exact [of ex_env_tree "''gone''" NoAccess initial_state main_defaults]
  from D d td have 1: "get_txt_files ex_env_tree ''data'' initial_state
       = ([''data/a.txt'', ''data/z.txt'', ''data/sub/b.txt''], initial_state)" by simp
  from P p np have 2: "fst (get_txt_files ex_env_tree ''plain'' initial_state) = []" by blast
  from P 2 have 3: "fst (main ex_env_tree ''plain'' main_defaults initial_state) = None
     \<and> saved (snd (main ex_env_tree ''plain'' main_defaults initial_state)) = saved initial_state"
    by blast
  from G g have 4: "fst (get_txt_files ex_env_tree ''gone'' initial_state) = []" by blast
  from G 4 have 5: "fst (main ex_env_tree ''gone'' main_defaults initial_state) = None
     \<and> saved (snd (main ex_env_tree ''gone'' main_defaults initial_state)) = saved initial_state"
    by blast
  from d p g np 1 2 3 4 5 show ?thesis by blast
qed

section \<open>The claims about the batch and the command line\<close>

text \<open>
  Claim C2, as amended.  When every file the discoverer returns loads and renders (the
  table library reads it, the order is made of digits that are passed over or find their
  colour, and the backend accepts the figure size, the colours and the image), \<^verbatim>\<open>main\<close>
  returns without an error and has written exactly one image per file, in the order of
  the files: the image of a file is named by the file's base name, extension kept,
  followed by a dot and the image format (\<^verbatim>\<open>sample.txt\<close> gives \<^verbatim>\<open>sample.txt.svg\<close>), and
  is saved in that format.  The base name holds no separator, so the name is relative to
  the current working directory.
\<close>

theorem main_writes_one_image_per_file:
  assumes "list_all (loads_and_renders env ps) (fst (get_txt_files env dir st))"
  shows "fst (main env dir ps st) = None
    \<and> written (snd (main env dir ps st))
        = written st @ map (\<lambda>tf. (basename tf @ ''.'' @ image_data_type ps, image_data_type ps))
                          (fst (get_txt_files env dir st))
    \<and> list_all (\<lambda>tf. CHR ''/'' \<notin> set (basename tf)) (fst (get_txt_files env dir st))"
proof -
  obtain tfs st1 where g: "get_txt_files env dir st = (tfs, st1)"
    by (cases "get_txt_files env dir st")
  with get_txt_files_saved [of env dir st] have "written st1 = written st"
    by (simp add: written_def)
  with main_loop_ok [of env ps tfs st1] assms g show ?thesis
    by (simp add: main_def list_all_iff basename_no_sep)
qed


theorem main_writes_one_image_per_file_witness:
  "list_all (loads_and_renders ex_env main_defaults) (fst (get_txt_files ex_env ''data'' initial_state))
   \<and> fst (get_txt_files ex_env ''data'' initial_state) = [''data/sample.txt'']
   \<and> fst (main ex_env ''data'' main_defaults initial_state) = None
   \<and> written (snd (main ex_env ''data'' main_defaults initial_state)) = [(''sample.txt.svg'', ''svg'')]
   \<and> CHR ''/'' \<notin> set (basename ''data/sample.txt'')"
proof -
  have g: "fst (get_txt_files ex_env ''data'' initial_state) = [''data/sample.txt'']"
    by code_simp
  have h: "list_all (loads_and_renders ex_env main_defaults)
             (fst (get_txt_files ex_env ''data'' initial_state))"
    by code_simp
  have b: "basename ''data/sample.txt'' = ''sample.txt''" by code_simp
  have w0: "written initial_state = []" by code_simp
  have f: "image_data_type main_defaults = ''svg''" by (simp add: main_defaults_def)
  from main_writes_one_image_per_file [OF h] h
  show ?thesis unfolding g by (simp add: b w0 f)
qed

text \<open>
  The claim as the spec words it fails on the name: the extension is not replaced.  The
  file \<^verbatim>\<open>data/sample.txt\<close> loads, and the one image written is \<^verbatim>\<open>sample.txt.svg\<close>, not
  \<^verbatim>\<open>sample.svg\<close>.
\<close>

theorem output_name_keeps_extension:
  "fst (load_txt ex_env ''data/sample.txt'' initial_state) = Some ex_table
   \<and> written (snd (main ex_env ''data'' main_defaults initial_state)) = [(''sample.txt.svg'', ''svg'')]
   \<and> (''sample.svg'', ''svg'') \<notin> set (written (snd (main ex_env ''data'' main_defaults initial_state)))"
  by code_simp

text \<open>
  Claim C1 (a defect of the code).  \<^verbatim>\<open>load_txt\<close> returns \<^verbatim>\<open>None\<close> for a file it cannot
  load, but \<^verbatim>\<open>main\<close> hands that \<^verbatim>\<open>None\<close> to \<^verbatim>\<open>plot_df\<close>, where \<^verbatim>\<open>df.columns\<close> raises
  \<^verbatim>\<open>AttributeError\<close>: on a directory with an unloadable file listed before a valid one the
  batch stops with that error and no image is written, the valid file's neither.
\<close>

theorem main_aborts_on_unloadable_file:
  "fst (get_txt_files ex_env_bad ''data'' initial_state) = [''data/bad.txt'', ''data/good.txt'']
   \<and> fst (load_txt ex_env_bad ''data/bad.txt'' initial_state) = None
   \<and> fst (load_txt ex_env_bad ''data/good.txt'' initial_state) = Some ex_table
   \<and> fst (main ex_env_bad ''data'' main_defaults initial_state) = Some AttributeError
   \<and> saved (snd (main ex_env_bad ''data'' main_defaults initial_state)) = []"
  by code_simp

text \<open>
  Claim C3 (a defect of the code).  The command line parses \<^verbatim>\<open>--image_data_type\<close>,
  \<^verbatim>\<open>--x_label\<close> and \<^verbatim>\<open>--y_label\<close>, but the call of \<^verbatim>\<open>main\<close> passes none of them on: with
  \<^verbatim>\<open>--image_data_type png --x_label X --y_label Y\<close> the image is written as
  \<^verbatim>\<open>sample.txt.svg\<close> in the format \<^verbatim>\<open>svg\<close> and the chart has no axis labels.
\<close>

theorem script_drops_format_and_labels:
  "arg_image_data_type ex_args = Some ''png''
   \<and> arg_x_label ex_args = Some ''X'' \<and> arg_y_label ex_args = Some ''Y''
   \<and> fst (script ex_env ex_args initial_state) = None
   \<and> written (snd (script ex_env ex_args initial_state)) = [(''sample.txt.svg'', ''svg'')]
   \<and> map (\<lambda>s. (fig_xlabel (snd (snd s)), fig_ylabel (snd (snd s))))
         (saved (snd (script ex_env ex_args initial_state))) = [(None, None)]"
  by code_simp

section \<open>The claim about the loader\<close>




end
